theory Spec2Isabelle
  imports Main "HOL-Library.Sublist" "HOL-Library.Multiset"
begin

section \<open>Data model of the listing store\<close>

text \<open>
  A JavaScript string is a sequence of UTF-16 code units; a title is kept as the list of
  its code units so that the Cyrillic room marker of \<^verbatim>\<open>extractRoomsCount\<close> can be
  written down. The numeric fields of an apartment are JavaScript numbers; they are
  modelled as integers (finite values, no NaN).
\<close>

type_synonym jsstring = "nat list"

record apartmentsItem =
  title :: jsstring
  price :: int
  square :: int
  floor :: int

datatype SortOption =
  price_asc | price_desc | square_asc | square_desc | floor_asc | floor_desc | default

text \<open>
  \<^verbatim>\<open>FilterState\<close> as the object is at run time: a property is \<open>None\<close> when the
  object lacks it. The interface declares all three properties, and every object built
  by the store has them; only an object restored by \<^verbatim>\<open>JSON.parse\<close> can lack one.
\<close>

record FilterState =
  rooms :: "int list option"
  priceRange :: "(int \<times> int) option"
  squareRange :: "(int \<times> int) option"

text \<open>The property \<^verbatim>\<open>value\<close> of a room option is the field \<open>room_value\<close>.\<close>

record RoomOption =
  name :: jsstring
  room_value :: int
  active :: bool
  disabled :: bool

datatype error = SyntaxError | TypeError | Rejected string

text \<open>
  The persisted slot of \<^verbatim>\<open>localStorage\<close>, described by what \<^verbatim>\<open>getItem\<close> and
  \<^verbatim>\<open>JSON.parse\<close> make of it: no usable string (\<^verbatim>\<open>null\<close> or the empty string, both
  falsy), a string that \<^verbatim>\<open>JSON.parse\<close> rejects, the JSON text \<^verbatim>\<open>null\<close> (reading
  a property of the parsed value throws), or a value whose properties \<^verbatim>\<open>filters\<close> and
  \<^verbatim>\<open>sortBy\<close> are each absent (or \<^verbatim>\<open>null\<close>) or present. A property that is present
  has the declared type.
\<close>

record persisted =
  p_filters :: "FilterState option"
  p_sortBy :: "SortOption option"

datatype stored = Absent | Unparsable | JsonNull | Parsed persisted

text \<open>
  The refs of the store, followed by its environment: the storage slot, the console
  (the errors passed to \<^verbatim>\<open>console.warn\<close> and \<^verbatim>\<open>console.error\<close>) and the number
  of times the fetch collaborator \<^verbatim>\<open>getApartments\<close> has been invoked. The reactive
  list \<^verbatim>\<open>rooms\<close> of the store is the field \<open>rooms_ui\<close>, since \<open>rooms\<close> is the
  property of \<^verbatim>\<open>FilterState\<close>.
\<close>

record store =
  allApartments :: "apartmentsItem list"
  displayedApartments :: "apartmentsItem list"
  filteredApartments :: "apartmentsItem list"
  currentPage :: nat
  itemsPerPage :: nat
  isLoading :: bool
  error :: "error option"
  sortBy :: SortOption
  hasInitialized :: bool
  rooms_ui :: "RoomOption list"
  filters :: FilterState
  storage :: stored
  console :: "error list"
  fetchCalls :: nat

definition DEFAULT_PRICE_MIN :: int where "DEFAULT_PRICE_MIN = 5500000"
definition DEFAULT_PRICE_MAX :: int where "DEFAULT_PRICE_MAX = 18900000"
definition DEFAULT_SQUARE_MIN :: int where "DEFAULT_SQUARE_MIN = 33"
definition DEFAULT_SQUARE_MAX :: int where "DEFAULT_SQUARE_MAX = 123"
definition ITEMS_PER_PAGE :: nat where "ITEMS_PER_PAGE = 5"

definition default_filters :: FilterState where
  "default_filters =
     \<lparr>rooms = Some [],
      priceRange = Some (DEFAULT_PRICE_MIN, DEFAULT_PRICE_MAX),
      squareRange = Some (DEFAULT_SQUARE_MIN, DEFAULT_SQUARE_MAX)\<rparr>"

text \<open>The four room options; 1082 is the code unit of the Cyrillic letter of the labels.\<close>

definition initial_rooms :: "RoomOption list" where
  "initial_rooms =
     [\<lparr>name = [49, 1082], room_value = 1, active = False, disabled = False\<rparr>,
      \<lparr>name = [50, 1082], room_value = 2, active = True, disabled = False\<rparr>,
      \<lparr>name = [51, 1082], room_value = 3, active = False, disabled = False\<rparr>,
      \<lparr>name = [52, 1082], room_value = 4, active = False, disabled = True\<rparr>]"

text \<open>The store as \<^verbatim>\<open>defineStore\<close> builds it, over a storage slot holding \<open>st\<close>.\<close>

definition useApartmentsStore :: "stored \<Rightarrow> store" where
  "useApartmentsStore st =
     \<lparr>allApartments = [], displayedApartments = [], filteredApartments = [],
      currentPage = 1, itemsPerPage = ITEMS_PER_PAGE, isLoading = False, error = None,
      sortBy = default, hasInitialized = False, rooms_ui = initial_rooms,
      filters = default_filters, storage = st, console = [], fetchCalls = 0\<rparr>"

section \<open>Room-count extraction\<close>

text \<open>
  \<^verbatim>\<open>title.match(/(\d+)-...../)\<close>: the leftmost position where a run of ASCII digits is
  followed by the marker, a hyphen and nine Cyrillic letters. At a given position the
  greedy \<^verbatim>\<open>\d+\<close> takes the whole run of digits; giving digits back cannot help, since
  the marker starts with a hyphen. The capture is the run of digits.
\<close>

definition is_digit :: "nat \<Rightarrow> bool" where
  "is_digit c \<longleftrightarrow> 48 \<le> c \<and> c \<le> 57"

definition room_marker :: jsstring where
  "room_marker = [45, 1082, 1086, 1084, 1085, 1072, 1090, 1085, 1072, 1103]"

definition match_here :: "jsstring \<Rightarrow> jsstring option" where
  "match_here s =
     (let ds = takeWhile is_digit s in
      if ds \<noteq> [] \<and> prefix room_marker (dropWhile is_digit s) then Some ds else None)"

fun regex_match :: "jsstring \<Rightarrow> jsstring option" where
  "regex_match [] = None"
| "regex_match (c # cs) =
     (case match_here (c # cs) of Some ds \<Rightarrow> Some ds | None \<Rightarrow> regex_match cs)"

definition parseInt10 :: "jsstring \<Rightarrow> int" where
  "parseInt10 ds = foldl (\<lambda>n c. 10 * n + int (c - 48)) 0 ds"

definition extractRoomsCount :: "jsstring \<Rightarrow> int" where
  "extractRoomsCount t = (case regex_match t of Some ds \<Rightarrow> parseInt10 ds | None \<Rightarrow> 0)"

section \<open>Filtering\<close>

text \<open>
  The callback of \<^verbatim>\<open>apartments.filter\<close>, in the order of the source: the room check
  reads \<^verbatim>\<open>filters.value.rooms.length\<close> and returns early; the two range checks
  destructure their range. Reading a property of a missing \<^verbatim>\<open>rooms\<close> and
  destructuring a missing range throw a \<^verbatim>\<open>TypeError\<close>.
\<close>

definition filter_callback :: "FilterState \<Rightarrow> apartmentsItem \<Rightarrow> error + bool" where
  "filter_callback f apartment =
     (case rooms f of
        None \<Rightarrow> Inl TypeError
      | Some rs \<Rightarrow>
          if length rs > 0 \<and> extractRoomsCount (title apartment) \<notin> set rs then Inr False
          else (case priceRange f of
                  None \<Rightarrow> Inl TypeError
                | Some (priceMin, priceMax) \<Rightarrow>
                    if price apartment < priceMin \<or> price apartment > priceMax then Inr False
                    else (case squareRange f of
                            None \<Rightarrow> Inl TypeError
                          | Some (squareMin, squareMax) \<Rightarrow>
                              if square apartment < squareMin \<or> square apartment > squareMax
                              then Inr False
                              else Inr True)))"

text \<open>
  \<^verbatim>\<open>Array.prototype.filter\<close>: the callback runs on the elements in order, the first
  exception ends the call, and the kept elements form a new array.
\<close>

fun array_filter :: "('a \<Rightarrow> error + bool) \<Rightarrow> 'a list \<Rightarrow> error + 'a list" where
  "array_filter p [] = Inr []"
| "array_filter p (x # xs) =
     (case p x of
        Inl e \<Rightarrow> Inl e
      | Inr b \<Rightarrow>
          (case array_filter p xs of
             Inl e \<Rightarrow> Inl e
           | Inr ys \<Rightarrow> Inr (if b then x # ys else ys)))"

definition filterApartments :: "FilterState \<Rightarrow> apartmentsItem list \<Rightarrow> error + apartmentsItem list" where
  "filterApartments f apartments = array_filter (filter_callback f) apartments"

section \<open>Sorting\<close>

fun sortMapper :: "SortOption \<Rightarrow> apartmentsItem \<Rightarrow> apartmentsItem \<Rightarrow> int" where
  "sortMapper default a b = 0"
| "sortMapper price_asc a b = price a - price b"
| "sortMapper price_desc a b = price b - price a"
| "sortMapper square_asc a b = square a - square b"
| "sortMapper square_desc a b = square b - square a"
| "sortMapper floor_asc a b = floor a - floor b"
| "sortMapper floor_desc a b = floor b - floor a"

text \<open>
  \<^verbatim>\<open>Array.prototype.sort\<close> with a comparator is a built-in of the language, which
  ECMAScript (2019 and later) requires to be stable. For a consistent comparator the
  stable sorted order is unique; here it is computed by insertion from the right, an
  element going in front of the first element it does not compare greater than.
\<close>

fun insert_cmp :: "('a \<Rightarrow> 'a \<Rightarrow> int) \<Rightarrow> 'a \<Rightarrow> 'a list \<Rightarrow> 'a list" where
  "insert_cmp c x [] = [x]"
| "insert_cmp c x (y # ys) = (if c x y \<le> 0 then x # y # ys else y # insert_cmp c x ys)"

definition array_sort :: "('a \<Rightarrow> 'a \<Rightarrow> int) \<Rightarrow> 'a list \<Rightarrow> 'a list" where
  "array_sort c xs = foldr (insert_cmp c) xs []"

definition sortApartments :: "apartmentsItem list \<Rightarrow> SortOption \<Rightarrow> apartmentsItem list" where
  "sortApartments apartments sortOption =
     (if sortOption = default then apartments
      else array_sort (sortMapper sortOption) apartments)"

section \<open>Persistence and derived values\<close>

text \<open>
  \<^verbatim>\<open>saveFilters\<close> writes \<^verbatim>\<open>JSON.stringify({filters, sortBy})\<close>; the slot then parses
  back to these two values (a missing property of \<^verbatim>\<open>filters\<close> is left out by
  \<^verbatim>\<open>JSON.stringify\<close> and is missing again after \<^verbatim>\<open>JSON.parse\<close>).
\<close>

definition saveFilters :: "store \<Rightarrow> store" where
  "saveFilters s =
     s\<lparr>storage := Parsed \<lparr>p_filters = Some (filters s), p_sortBy = Some (sortBy s)\<rparr>\<rparr>"

text \<open>
  \<^verbatim>\<open>initPersistedState\<close>. Inside the \<^verbatim>\<open>try\<close>, \<^verbatim>\<open>JSON.parse\<close> may throw, reading
  \<^verbatim>\<open>parsed.filters\<close> throws when the parsed value is \<^verbatim>\<open>null\<close>, and the callback of
  \<^verbatim>\<open>rooms.forEach\<close> throws on the first room option when the restored filters have no
  \<^verbatim>\<open>rooms\<close>; by then \<^verbatim>\<open>filters\<close> and \<^verbatim>\<open>sortBy\<close> have been assigned. The
  \<^verbatim>\<open>catch\<close> passes the exception to \<^verbatim>\<open>console.warn\<close>.
\<close>

definition initPersistedState :: "store \<Rightarrow> store" where
  "initPersistedState s =
     (case storage s of
        Absent \<Rightarrow> s
      | Unparsable \<Rightarrow> s\<lparr>console := console s @ [SyntaxError]\<rparr>
      | JsonNull \<Rightarrow> s\<lparr>console := console s @ [TypeError]\<rparr>
      | Parsed parsed \<Rightarrow>
          (let s1 = s\<lparr>filters := (case p_filters parsed of Some f \<Rightarrow> f | None \<Rightarrow> filters s)\<rparr>;
               s2 = s1\<lparr>sortBy := (case p_sortBy parsed of Some b \<Rightarrow> b | None \<Rightarrow> default)\<rparr>
           in case rooms (filters s2) of
                Some rs \<Rightarrow>
                  s2\<lparr>rooms_ui := map (\<lambda>room. room\<lparr>active := room_value room \<in> set rs\<rparr>) (rooms_ui s2)\<rparr>
              | None \<Rightarrow>
                  if rooms_ui s2 = [] then s2 else s2\<lparr>console := console s2 @ [TypeError]\<rparr>))"

definition hasMoreItems :: "store \<Rightarrow> bool" where
  "hasMoreItems s \<longleftrightarrow> length (displayedApartments s) < length (filteredApartments s)"

section \<open>The recompute pipeline\<close>

text \<open>
  \<^verbatim>\<open>applyFiltersAndSort\<close>. An exception of the filter callback leaves the call before
  any assignment, so \<open>Inl\<close> carries the exception and the store is as it was.
  \<^verbatim>\<open>slice(0, n)\<close> is \<open>take n\<close>.
\<close>

definition applyFiltersAndSort :: "store \<Rightarrow> error + store" where
  "applyFiltersAndSort s =
     (if length (allApartments s) = 0 then Inr s
      else case filterApartments (filters s) (allApartments s) of
             Inl e \<Rightarrow> Inl e
           | Inr filtered \<Rightarrow>
               (let sorted = sortApartments filtered (sortBy s);
                    s1 = s\<lparr>filteredApartments := sorted\<rparr>;
                    s2 = s1\<lparr>currentPage := 1\<rparr>
                in Inr (s2\<lparr>displayedApartments := take (itemsPerPage s2) (filteredApartments s2)\<rparr>)))"

section \<open>Actions\<close>

text \<open>
  \<^verbatim>\<open>fetchApartments\<close> is asynchronous. Up to the \<^verbatim>\<open>await\<close> it runs at once:
  \<open>fetchApartments_start\<close> is \<open>None\<close> when the guard returns, and otherwise the store
  with the loading flag set and the collaborator invoked. \<open>fetchApartments_resume\<close> is
  the rest of the body, run when the collaborator settles with \<open>outcome\<close> (\<open>Inl\<close> a
  rejection, \<open>Inr\<close> the data), on the store as it is by then. \<open>fetchApartments\<close> is a
  call that is awaited with nothing else running in between.
\<close>

definition fetchApartments_start :: "store \<Rightarrow> store option" where
  "fetchApartments_start s =
     (if length (allApartments s) > 0 then None
      else Some (s\<lparr>isLoading := True, error := None, fetchCalls := fetchCalls s + 1\<rparr>))"

definition fetchApartments_resume :: "error + apartmentsItem list \<Rightarrow> store \<Rightarrow> store" where
  "fetchApartments_resume outcome s =
     (let after =
        (case outcome of
           Inl err \<Rightarrow> s\<lparr>error := Some err, console := console s @ [err]\<rparr>
         | Inr data \<Rightarrow>
             (let s1 = s\<lparr>allApartments := data\<rparr>;
                  s2 = s1\<lparr>hasInitialized := True\<rparr>;
                  s3 = initPersistedState s2
              in case applyFiltersAndSort s3 of
                   Inr s4 \<Rightarrow> s4
                 | Inl err \<Rightarrow> s3\<lparr>error := Some err, console := console s3 @ [err]\<rparr>))
      in after\<lparr>isLoading := False\<rparr>)"

definition fetchApartments :: "error + apartmentsItem list \<Rightarrow> store \<Rightarrow> store" where
  "fetchApartments outcome s =
     (case fetchApartments_start s of
        None \<Rightarrow> s
      | Some s1 \<Rightarrow> fetchApartments_resume outcome s1)"

text \<open>
  \<^verbatim>\<open>loadMore\<close>, split at its \<^verbatim>\<open>await\<close> of the timer in the same way. The promise of
  the timer never rejects and nothing after it throws, so the \<^verbatim>\<open>catch\<close> is never
  entered.
\<close>

definition loadMore_start :: "store \<Rightarrow> store option" where
  "loadMore_start s =
     (if \<not> hasMoreItems s \<or> isLoading s then None else Some (s\<lparr>isLoading := True\<rparr>))"

definition loadMore_resume :: "store \<Rightarrow> store" where
  "loadMore_resume s =
     (let s1 = s\<lparr>currentPage := currentPage s + 1\<rparr>;
          startIndex = 0;
          endIndex = currentPage s1 * itemsPerPage s1;
          s2 = s1\<lparr>displayedApartments := take (endIndex - startIndex) (drop startIndex (filteredApartments s1))\<rparr>
      in s2\<lparr>isLoading := False\<rparr>)"

definition loadMore :: "store \<Rightarrow> store" where
  "loadMore s = (case loadMore_start s of None \<Rightarrow> s | Some s1 \<Rightarrow> loadMore_resume s1)"

text \<open>
  The mutators end with \<^verbatim>\<open>applyFiltersAndSort(); saveFilters();\<close>. When the pipeline
  throws, the exception leaves the mutator, the assignment already made stays and
  nothing is saved: the result is the store at exit and the exception, if any.
\<close>

definition apply_and_save :: "store \<Rightarrow> store \<times> error option" where
  "apply_and_save s =
     (case applyFiltersAndSort s of
        Inl e \<Rightarrow> (s, Some e)
      | Inr s1 \<Rightarrow> (saveFilters s1, None))"

definition setSortBy :: "SortOption \<Rightarrow> store \<Rightarrow> store \<times> error option" where
  "setSortBy newSortBy s = apply_and_save (s\<lparr>sortBy := newSortBy\<rparr>)"

definition setRoomsFilter :: "int list \<Rightarrow> store \<Rightarrow> store \<times> error option" where
  "setRoomsFilter rs s = apply_and_save (s\<lparr>filters := (filters s)\<lparr>rooms := Some rs\<rparr>\<rparr>)"

definition resetRooms :: "store \<Rightarrow> store" where
  "resetRooms s = s\<lparr>rooms_ui := map (\<lambda>room. room\<lparr>active := False\<rparr>) (rooms_ui s)\<rparr>"

definition setPriceRange :: "int \<times> int \<Rightarrow> store \<Rightarrow> store \<times> error option" where
  "setPriceRange rng s = apply_and_save (s\<lparr>filters := (filters s)\<lparr>priceRange := Some rng\<rparr>\<rparr>)"

definition setSquareRange :: "int \<times> int \<Rightarrow> store \<Rightarrow> store \<times> error option" where
  "setSquareRange rng s = apply_and_save (s\<lparr>filters := (filters s)\<lparr>squareRange := Some rng\<rparr>\<rparr>)"

definition resetFilters :: "store \<Rightarrow> store \<times> error option" where
  "resetFilters s = apply_and_save (s\<lparr>filters := default_filters, sortBy := default\<rparr>)"

definition reset :: "store \<Rightarrow> store" where
  "reset s =
     saveFilters
       (s\<lparr>allApartments := [], displayedApartments := [], filteredApartments := [],
          currentPage := 1, isLoading := False, error := None, sortBy := default,
          hasInitialized := False, filters := default_filters\<rparr>)"

section \<open>Runs of the store\<close>

text \<open>
  What can happen to the store between two turns of the event loop: an action runs up to
  its \<^verbatim>\<open>await\<close> or to its end, or a suspended \<^verbatim>\<open>fetchApartments\<close> or
  \<^verbatim>\<open>loadMore\<close> resumes. A resumption is allowed at any time, which covers every
  interleaving the event loop can produce.
\<close>

datatype action =
    FetchStart
  | FetchResume "error + apartmentsItem list"
  | LoadMoreStart
  | LoadMoreResume
  | SetSortBy SortOption
  | SetRoomsFilter "int list"
  | ResetRooms
  | SetPriceRange "int \<times> int"
  | SetSquareRange "int \<times> int"
  | ResetFilters
  | Reset

fun step :: "action \<Rightarrow> store \<Rightarrow> store" where
  "step FetchStart s = (case fetchApartments_start s of None \<Rightarrow> s | Some s1 \<Rightarrow> s1)"
| "step (FetchResume outcome) s = fetchApartments_resume outcome s"
| "step LoadMoreStart s = (case loadMore_start s of None \<Rightarrow> s | Some s1 \<Rightarrow> s1)"
| "step LoadMoreResume s = loadMore_resume s"
| "step (SetSortBy b) s = fst (setSortBy b s)"
| "step (SetRoomsFilter rs) s = fst (setRoomsFilter rs s)"
| "step ResetRooms s = resetRooms s"
| "step (SetPriceRange r) s = fst (setPriceRange r s)"
| "step (SetSquareRange r) s = fst (setSquareRange r s)"
| "step ResetFilters s = fst (resetFilters s)"
| "step Reset s = reset s"

inductive reachable :: "store \<Rightarrow> bool" where
  init: "reachable (useApartmentsStore st)"
| step: "reachable s \<Longrightarrow> reachable (step a s)"

section \<open>The debounce utility\<close>

text \<open>
  \<^verbatim>\<open>debounce(func, wait)\<close> returns a closure over the variable \<^verbatim>\<open>timeout\<close>. The
  host is modelled with it: the timers that are scheduled and not yet run (in the order
  they were scheduled), the next timer id, and the record of the invocations of
  \<^verbatim>\<open>func\<close>, each with the time it ran at and its arguments. Time is counted in
  milliseconds. The callback of a timer is determined by the arguments it closes over.
\<close>

record 'a timer =
  timer_id :: nat
  deadline :: nat
  timer_args :: 'a

record 'a world =
  timeout :: "nat option"
  timers :: "'a timer list"
  next_id :: nat
  calls :: "(nat \<times> 'a) list"

text \<open>The state right after \<^verbatim>\<open>debounce(func, wait)\<close> has returned, in a host with no timers.\<close>

definition debounce_new :: "'a world" where
  "debounce_new = \<lparr>timeout = None, timers = [], next_id = 1, calls = []\<rparr>"

definition clearTimeout :: "nat \<Rightarrow> 'a world \<Rightarrow> 'a world" where
  "clearTimeout i w = w\<lparr>timers := filter (\<lambda>tm. timer_id tm \<noteq> i) (timers w)\<rparr>"

definition setTimeout :: "nat \<Rightarrow> nat \<Rightarrow> 'a \<Rightarrow> 'a world \<Rightarrow> nat \<times> 'a world" where
  "setTimeout now wait args w =
     (next_id w,
      w\<lparr>timers := timers w @ [\<lparr>timer_id = next_id w, deadline = now + wait, timer_args = args\<rparr>],
        next_id := next_id w + 1\<rparr>)"

text \<open>One invocation of the returned function, at time \<open>now\<close>.\<close>

definition debounce_call :: "nat \<Rightarrow> nat \<Rightarrow> 'a \<Rightarrow> 'a world \<Rightarrow> 'a world" where
  "debounce_call wait now args w =
     (let w1 = (case timeout w of Some i \<Rightarrow> clearTimeout i w | None \<Rightarrow> w);
          (i, w2) = setTimeout now wait args w1
      in w2\<lparr>timeout := Some i\<rparr>)"

text \<open>
  The callback of a timer: \<^verbatim>\<open>func(...args); timeout = null\<close>, in this order. The host
  runs it at the deadline of the timer. The wrapped function is any function; what
  matters of it here is that it is invoked, and which invocations of the returned
  function it makes itself while it runs: \<open>func args\<close> lists their arguments (the empty
  list for a function that makes none).
\<close>

definition timer_callback :: "('a \<Rightarrow> 'a list) \<Rightarrow> nat \<Rightarrow> 'a timer \<Rightarrow> 'a world \<Rightarrow> 'a world" where
  "timer_callback func wait tm w =
     (let w1 = w\<lparr>calls := calls w @ [(deadline tm, timer_args tm)]\<rparr>;
          w2 = fold (debounce_call wait (deadline tm)) (func (timer_args tm)) w1
      in w2\<lparr>timeout := None\<rparr>)"

text \<open>
  The host picks, among the timers whose deadline is \<open>due\<close>, the one with the earliest
  deadline, the first scheduled among equals.
\<close>

definition next_timer :: "(nat \<Rightarrow> bool) \<Rightarrow> 'a timer list \<Rightarrow> 'a timer option" where
  "next_timer due tms =
     (case sort_key deadline (filter (\<lambda>tm. due (deadline tm)) tms) of
        [] \<Rightarrow> None
      | tm # _ \<Rightarrow> Some tm)"

text \<open>
  The host running the due timers until none is left: it takes the timer off its list
  and runs the callback. A callback can schedule timers, so the loop need not end;
  \<open>n\<close> bounds the number of callbacks, and \<open>None\<close> says that the bound was reached
  with a timer still due.
\<close>

fun run_timers :: "nat \<Rightarrow> ('a \<Rightarrow> 'a list) \<Rightarrow> nat \<Rightarrow> (nat \<Rightarrow> bool) \<Rightarrow> 'a world \<Rightarrow> 'a world option" where
  "run_timers 0 func wait due w =
     (case next_timer due (timers w) of None \<Rightarrow> Some w | Some tm \<Rightarrow> None)"
| "run_timers (Suc n) func wait due w =
     (case next_timer due (timers w) of
        None \<Rightarrow> Some w
      | Some tm \<Rightarrow>
          run_timers n func wait due
            (timer_callback func wait tm
               (w\<lparr>timers := filter (\<lambda>x. timer_id x \<noteq> timer_id tm) (timers w)\<rparr>)))"

text \<open>
  A session: the returned function is invoked from outside at the given times with the
  given arguments. The timers that are due by the instant of an invocation run before
  it. At the end the host is left alone until no timer remains. The result is the
  record of the invocations of \<^verbatim>\<open>func\<close>.
\<close>

fun run_calls :: "nat \<Rightarrow> ('a \<Rightarrow> 'a list) \<Rightarrow> nat \<Rightarrow> (nat \<times> 'a) list \<Rightarrow> 'a world \<Rightarrow> 'a world option" where
  "run_calls n func wait [] w = Some w"
| "run_calls n func wait ((t, args) # cs) w =
     (case run_timers n func wait (\<lambda>d. d \<le> t) w of
        None \<Rightarrow> None
      | Some w1 \<Rightarrow> run_calls n func wait cs (debounce_call wait t args w1))"

definition session :: "nat \<Rightarrow> ('a \<Rightarrow> 'a list) \<Rightarrow> nat \<Rightarrow> (nat \<times> 'a) list \<Rightarrow> (nat \<times> 'a) list option" where
  "session n func wait cs =
     (case run_calls n func wait cs debounce_new of
        None \<Rightarrow> None
      | Some w \<Rightarrow>
          (case run_timers n func wait (\<lambda>d. True) w of
             None \<Rightarrow> None
           | Some w' \<Rightarrow> Some (calls w')))"

text \<open>
  What the description of the utility asks for: of the invocations, those that are
  followed by no other invocation within \<open>wait\<close> run, each \<open>wait\<close> after it was made.
\<close>

fun trailing_calls :: "nat \<Rightarrow> (nat \<times> 'a) list \<Rightarrow> (nat \<times> 'a) list" where
  "trailing_calls wait [] = []"
| "trailing_calls wait [(t, args)] = [(t + wait, args)]"
| "trailing_calls wait ((t, args) # (t', args') # cs) =
     (if t + wait \<le> t' then [(t + wait, args)] else []) @ trailing_calls wait ((t', args') # cs)"

text \<open>
  The timers of the host are the one that the variable \<^verbatim>\<open>timeout\<close> names, if it
  names one.
\<close>

definition own_timer :: "'a world \<Rightarrow> bool" where
  "own_timer w \<longleftrightarrow>
     map timer_id (timers w) = (case timeout w of None \<Rightarrow> [] | Some i \<Rightarrow> [i])"

text \<open>
  A wrapped function that invokes the returned function once more, with \<open>''b''\<close>, when
  it runs with \<open>''a''\<close>.
\<close>

definition reentrant :: "string \<Rightarrow> string list" where
  "reentrant args = (if args = ''a'' then [''b''] else [])"

section \<open>Properties of the store\<close>

text \<open>The displayed list is the window of the filtered list that the page number gives.\<close>

definition displayed_window :: "store \<Rightarrow> bool" where
  "displayed_window s \<longleftrightarrow>
     displayedApartments s = take (currentPage s * itemsPerPage s) (filteredApartments s)"

text \<open>A stored payload that has filters with a room list and no ranges, and no sort.\<close>

definition partial_payload :: persisted where
  "partial_payload =
     \<lparr>p_filters = Some \<lparr>rooms = Some [2], priceRange = None, squareRange = None\<rparr>, p_sortBy = None\<rparr>"

section \<open>Sort keys and example data\<close>

text \<open>
  The key a sort option orders by: the field itself for an ascending option, the negated
  field for a descending one, a constant for \<open>default\<close>.
\<close>

fun sort_key_of :: "SortOption \<Rightarrow> apartmentsItem \<Rightarrow> int" where
  "sort_key_of default a = 0"
| "sort_key_of price_asc a = price a"
| "sort_key_of price_desc a = - price a"
| "sort_key_of square_asc a = square a"
| "sort_key_of square_desc a = - square a"
| "sort_key_of floor_asc a = floor a"
| "sort_key_of floor_desc a = - floor a"

text \<open>
  Titles used in the examples: a two-room flat (the marker followed by a space and a
  word), a three-room flat and a studio, whose title has no marker.
\<close>

definition title_2 :: jsstring where
  "title_2 = [50, 45, 1082, 1086, 1084, 1085, 1072, 1090, 1085, 1072, 1103,
              32, 1082, 1074, 1072, 1088, 1090, 1080, 1088, 1072]"

definition title_3 :: jsstring where
  "title_3 = [51, 45, 1082, 1086, 1084, 1085, 1072, 1090, 1085, 1072, 1103]"

definition title_studio :: jsstring where
  "title_studio = [1057, 1090, 1091, 1076, 1080, 1103]"

definition flat_a :: apartmentsItem where
  "flat_a = \<lparr>title = title_2, price = 6000000, square = 50, floor = 3\<rparr>"

definition flat_b :: apartmentsItem where
  "flat_b = \<lparr>title = title_3, price = 7000000, square = 70, floor = 5\<rparr>"

definition flat_c :: apartmentsItem where
  "flat_c = \<lparr>title = title_2, price = 19000000, square = 60, floor = 9\<rparr>"

definition flat_d :: apartmentsItem where
  "flat_d = \<lparr>title = title_2, price = 8000000, square = 45, floor = 2\<rparr>"

definition ex_flats :: "apartmentsItem list" where
  "ex_flats =
     [\<lparr>title = [], price = 7, square = 40, floor = 1\<rparr>,
      \<lparr>title = [], price = 5, square = 50, floor = 2\<rparr>,
      \<lparr>title = [], price = 7, square = 60, floor = 3\<rparr>,
      \<lparr>title = [], price = 5, square = 70, floor = 4\<rparr>]"

section \<open>Room-count extraction and filtering\<close>

lemma extractRoomsCount_examples:
  "extractRoomsCount title_2 = 2" "extractRoomsCount title_3 = 3" "extractRoomsCount title_studio = 0"
  by (simp_all add: extractRoomsCount_def match_here_def is_digit_def room_marker_def
      parseInt10_def title_2_def title_3_def title_studio_def)

lemma array_filter_total:
  "\<forall>x \<in> set xs. p x = Inr (q x) \<Longrightarrow> array_filter p xs = Inr (filter q xs)"
  by (induction xs) auto

lemma filter_callback_shaped:
  assumes "rooms f = Some rs" "priceRange f = Some (pmin, pmax)" "squareRange f = Some (smin, smax)"
  shows "filter_callback f a =
           Inr ((rs = [] \<or> extractRoomsCount (title a) \<in> set rs)
                \<and> pmin \<le> price a \<and> price a \<le> pmax
                \<and> smin \<le> square a \<and> square a \<le> smax)"
  using assms by (auto simp: filter_callback_def)

lemma applyFiltersAndSort_allApartments:
  "allApartments (case applyFiltersAndSort s of Inl e \<Rightarrow> s | Inr s' \<Rightarrow> s') = allApartments s"
  by (simp add: applyFiltersAndSort_def Let_def split: sum.splits)

text \<open>
  Claim C1. For a filter state that has its three properties (room list \<open>rs\<close>, price
  range and square range) and every dataset \<open>D\<close>, \<open>filterApartments\<close> returns without
  an exception a list \<open>R\<close> that is a subsequence of \<open>D\<close>: it is \<open>D\<close> with exactly those
  apartments kept, in their order, for which the room list is empty or holds the room
  count extracted from the title, and the price and the square lie in their ranges, bounds
  included. The recompute pipeline, which calls it on \<open>allApartments\<close>, leaves
  \<open>allApartments\<close> as it was.
\<close>

theorem filterApartments_spec:
  assumes "rooms f = Some rs" "priceRange f = Some (pmin, pmax)" "squareRange f = Some (smin, smax)"
  shows "\<exists>R. filterApartments f D = Inr R \<and> subseq R D
           \<and> R = filter (\<lambda>a. (rs = [] \<or> extractRoomsCount (title a) \<in> set rs)
                \<and> pmin \<le> price a \<and> price a \<le> pmax
                \<and> smin \<le> square a \<and> square a \<le> smax) D
           \<and> (\<forall>a. a \<in> set R \<longleftrightarrow> a \<in> set D \<and> (rs = [] \<or> extractRoomsCount (title a) \<in> set rs)
                \<and> pmin \<le> price a \<and> price a \<le> pmax
                \<and> smin \<le> square a \<and> square a \<le> smax)
           \<and> allApartments (case applyFiltersAndSort s of Inl e \<Rightarrow> s | Inr s' \<Rightarrow> s') = allApartments s"
proof -
  let ?P = "\<lambda>a. (rs = [] \<or> extractRoomsCount (title a) \<in> set rs)
                \<and> pmin \<le> price a \<and> price a \<le> pmax
                \<and> smin \<le> square a \<and> square a \<le> smax"
  have "filterApartments f D = Inr (filter ?P D)"
    unfolding filterApartments_def
    by (rule array_filter_total) (simp add: filter_callback_shaped [OF assms])
  moreover have "subseq (filter ?P D) D" by simp
  moreover have "\<forall>a. a \<in> set (filter ?P D) \<longleftrightarrow> a \<in> set D \<and> ?P a" by simp
  ultimately show ?thesis using applyFiltersAndSort_allApartments by blast
qed

text \<open>
  With the room filter set to two rooms and the default ranges, of a two-room flat, a
  three-room flat, a two-room flat above the price range and another two-room flat, the
  first and the last are kept.
\<close>

theorem filterApartments_spec_witness:
  "filterApartments (default_filters\<lparr>rooms := Some [2]\<rparr>) [flat_a, flat_b, flat_c, flat_d]
     = Inr [flat_a, flat_d]"
proof -
  have r: "rooms (default_filters\<lparr>rooms := Some [2]\<rparr>) = Some [2]" by simp
  have p: "priceRange (default_filters\<lparr>rooms := Some [2]\<rparr>) = Some (5500000, 18900000)"
    by (simp add: default_filters_def DEFAULT_PRICE_MIN_def DEFAULT_PRICE_MAX_def)
  have q: "squareRange (default_filters\<lparr>rooms := Some [2]\<rparr>) = Some (33, 123)"
    by (simp add: default_filters_def DEFAULT_SQUARE_MIN_def DEFAULT_SQUARE_MAX_def)
  show ?thesis
    using filterApartments_spec [OF r p q, of "[flat_a, flat_b, flat_c, flat_d]"]
    by (simp add: extractRoomsCount_examples flat_a_def flat_b_def flat_c_def flat_d_def)
qed

section \<open>Sorting is a stable permutation\<close>

lemma insert_cmp_key:
  "(\<And>x y. c x y \<le> 0 \<longleftrightarrow> k x \<le> k y) \<Longrightarrow> insert_cmp c x ys = insort_key k x ys"
  by (induction ys) auto

lemma array_sort_key:
  "(\<And>x y. c x y \<le> 0 \<longleftrightarrow> k x \<le> k y) \<Longrightarrow> array_sort c xs = sort_key k xs"
  unfolding array_sort_def sort_key_def
  by (induction xs) (auto simp: insert_cmp_key)

lemma sortMapper_le: "sortMapper S x y \<le> 0 \<longleftrightarrow> sort_key_of S x \<le> sort_key_of S y"
  by (cases S) auto

lemma sortMapper_eq: "sortMapper S x y = 0 \<longleftrightarrow> sort_key_of S y = sort_key_of S x"
  by (cases S) auto

lemma sort_key_const: "sort_key (\<lambda>a. (0::int)) xs = xs"
proof -
  have "insort_key (\<lambda>a. (0::int)) x ys = x # ys" for x :: 'a and ys
    by (cases ys) auto
  then show ?thesis
    by (induction xs) (auto simp: sort_key_def)
qed

lemma sortApartments_sort_key: "sortApartments D S = sort_key (sort_key_of S) D"
proof (cases "S = default")
  case True
  have "sort_key_of default = (\<lambda>a. 0)" by (rule ext) simp
  with True show ?thesis by (simp add: sortApartments_def sort_key_const)
next
  case False
  then show ?thesis
    by (simp add: sortApartments_def array_sort_key [of "sortMapper S" "sort_key_of S"] sortMapper_le)
qed

lemma sortApartments_example:
  "map floor (sortApartments ex_flats price_desc) = [1, 3, 2, 4]"
  by (simp add: sortApartments_def array_sort_def ex_flats_def)

text \<open>
  Claim C2. For every dataset \<open>D\<close> and sort option \<open>S\<close>, \<open>sortApartments D S\<close> has the
  same elements as \<open>D\<close> with the same multiplicities, is ordered by the comparator of
  \<open>S\<close>, and is stable: the elements that compare equal to any given apartment come in
  the order they have in \<open>D\<close>. Under \<open>default\<close> all elements compare equal and the
  result is \<open>D\<close> itself.
\<close>

theorem sortApartments_stable_permutation:
  "mset (sortApartments D S) = mset D
   \<and> sorted_wrt (\<lambda>a b. sortMapper S a b \<le> 0) (sortApartments D S)
   \<and> (\<forall>a. filter (\<lambda>b. sortMapper S a b = 0) (sortApartments D S)
            = filter (\<lambda>b. sortMapper S a b = 0) D)
   \<and> sortApartments D default = D"
proof -
  have perm: "mset (sortApartments D S) = mset D"
    by (simp add: sortApartments_sort_key)
  have "sorted (map (sort_key_of S) (sort_key (sort_key_of S) D))"
    by (rule sorted_sort_key)
  then have srt: "sorted_wrt (\<lambda>a b. sortMapper S a b \<le> 0) (sortApartments D S)"
    by (simp add: sortApartments_sort_key sortMapper_le sorted_map)
  have stable: "filter (\<lambda>b. sortMapper S a b = 0) (sortApartments D S)
            = filter (\<lambda>b. sortMapper S a b = 0) D" for a
    by (simp add: sortApartments_sort_key sortMapper_eq sort_key_stable)
  have dflt: "sortApartments D default = D"
    by (simp add: sortApartments_def)
  from perm srt stable dflt show ?thesis by blast
qed

theorem sortApartments_stable_permutation_witness:
  "mset (sortApartments ex_flats price_desc) = mset ex_flats
   \<and> filter (\<lambda>b. sortMapper price_desc (ex_flats ! 1) b = 0) (sortApartments ex_flats price_desc)
       = filter (\<lambda>b. sortMapper price_desc (ex_flats ! 1) b = 0) ex_flats"
  using sortApartments_stable_permutation [of ex_flats price_desc] by blast

section \<open>The displayed window\<close>

lemma displayed_window_cong:
  "displayedApartments s' = displayedApartments s \<Longrightarrow> currentPage s' = currentPage s \<Longrightarrow>
   itemsPerPage s' = itemsPerPage s \<Longrightarrow> filteredApartments s' = filteredApartments s \<Longrightarrow>
   displayed_window s' = displayed_window s"
  by (simp add: displayed_window_def)

lemma applyFiltersAndSort_window:
  "displayed_window s \<Longrightarrow> applyFiltersAndSort s = Inr s' \<Longrightarrow> displayed_window s'"
  by (auto simp: applyFiltersAndSort_def displayed_window_def Let_def split: if_splits sum.splits)

lemma saveFilters_window: "displayed_window (saveFilters s) = displayed_window s"
  by (simp add: saveFilters_def displayed_window_def)

lemma apply_and_save_window:
  "displayed_window s \<Longrightarrow> displayed_window (fst (apply_and_save s))"
  by (auto simp: apply_and_save_def saveFilters_window split: sum.splits
      dest: applyFiltersAndSort_window)

lemma initPersistedState_window: "displayed_window (initPersistedState s) = displayed_window s"
  by (simp add: initPersistedState_def displayed_window_def Let_def
      split: stored.splits option.splits)

lemma fetchApartments_start_window:
  "displayed_window s \<Longrightarrow> fetchApartments_start s = Some s1 \<Longrightarrow> displayed_window s1"
  by (auto simp: fetchApartments_start_def displayed_window_def split: if_splits)

lemma fetchApartments_resume_window:
  assumes "displayed_window s"
  shows "displayed_window (fetchApartments_resume outcome s)"
proof (cases outcome)
  case (Inl err)
  with assms show ?thesis
    by (simp add: fetchApartments_resume_def displayed_window_def)
next
  case (Inr data)
  let ?s3 = "initPersistedState (s\<lparr>allApartments := data, hasInitialized := True\<rparr>)"
  have w3: "displayed_window ?s3"
    using assms by (simp add: initPersistedState_window) (simp add: displayed_window_def)
  show ?thesis
  proof (cases "applyFiltersAndSort ?s3")
    case (Inl e)
    with Inr w3 show ?thesis
      by (simp add: fetchApartments_resume_def Let_def) (simp add: displayed_window_def)
  next
    case (Inr s4)
    then have "displayed_window s4" using w3 by (rule applyFiltersAndSort_window [rotated])
    with Inr \<open>outcome = Inr data\<close> show ?thesis
      by (simp add: fetchApartments_resume_def Let_def) (simp add: displayed_window_def)
  qed
qed

lemma loadMore_start_window:
  "displayed_window s \<Longrightarrow> loadMore_start s = Some s1 \<Longrightarrow> displayed_window s1"
  by (auto simp: loadMore_start_def displayed_window_def split: if_splits)

lemma loadMore_resume_window: "displayed_window (loadMore_resume s)"
  by (simp add: loadMore_resume_def displayed_window_def Let_def)

lemma reset_window: "displayed_window (reset s)"
  by (simp add: reset_def saveFilters_def displayed_window_def)

lemma step_window: "displayed_window s \<Longrightarrow> displayed_window (step a s)"
proof (cases a)
  case FetchStart
  assume "displayed_window s"
  with FetchStart show ?thesis
    by (auto split: option.splits dest: fetchApartments_start_window)
next
  case LoadMoreStart
  assume "displayed_window s"
  with LoadMoreStart show ?thesis
    by (auto split: option.splits dest: loadMore_start_window)
next
  case (SetSortBy b)
  assume "displayed_window s"
  then have "displayed_window (s\<lparr>sortBy := b\<rparr>)" by (simp add: displayed_window_def)
  with SetSortBy show ?thesis by (simp add: setSortBy_def apply_and_save_window)
next
  case (SetRoomsFilter rs)
  assume "displayed_window s"
  then have "displayed_window (s\<lparr>filters := (filters s)\<lparr>rooms := Some rs\<rparr>\<rparr>)"
    by (simp add: displayed_window_def)
  with SetRoomsFilter show ?thesis by (simp add: setRoomsFilter_def apply_and_save_window)
next
  case (SetPriceRange r)
  assume "displayed_window s"
  then have "displayed_window (s\<lparr>filters := (filters s)\<lparr>priceRange := Some r\<rparr>\<rparr>)"
    by (simp add: displayed_window_def)
  with SetPriceRange show ?thesis by (simp add: setPriceRange_def apply_and_save_window)
next
  case (SetSquareRange r)
  assume "displayed_window s"
  then have "displayed_window (s\<lparr>filters := (filters s)\<lparr>squareRange := Some r\<rparr>\<rparr>)"
    by (simp add: displayed_window_def)
  with SetSquareRange show ?thesis by (simp add: setSquareRange_def apply_and_save_window)
next
  case ResetFilters
  assume "displayed_window s"
  then have "displayed_window (s\<lparr>filters := default_filters, sortBy := default\<rparr>)"
    by (simp add: displayed_window_def)
  with ResetFilters show ?thesis by (simp add: resetFilters_def apply_and_save_window)
next
  case ResetRooms
  assume "displayed_window s"
  with ResetRooms show ?thesis by (simp add: resetRooms_def displayed_window_def)
qed (simp_all add: fetchApartments_resume_window loadMore_resume_window reset_window)

lemma reachable_window: "reachable s \<Longrightarrow> displayed_window s"
proof (induction rule: reachable.induct)
  case (init st)
  show ?case by (simp add: useApartmentsStore_def displayed_window_def)
next
  case (step s a)
  then show ?case by (simp add: step_window)
qed

lemma reachable_fetchApartments:
  assumes "reachable s"
  shows "reachable (fetchApartments outcome s)"
proof (cases "fetchApartments_start s")
  case None
  then show ?thesis using assms by (simp add: fetchApartments_def)
next
  case (Some s1)
  have "reachable (step (FetchResume outcome) (step FetchStart s))"
    using assms by (intro reachable.step)
  with Some show ?thesis by (simp add: fetchApartments_def)
qed

lemma reachable_loadMore:
  assumes "reachable s"
  shows "reachable (loadMore s)"
proof (cases "loadMore_start s")
  case None
  then show ?thesis using assms by (simp add: loadMore_def)
next
  case (Some s1)
  have "reachable (step LoadMoreResume (step LoadMoreStart s))"
    using assms by (intro reachable.step)
  with Some show ?thesis by (simp add: loadMore_def)
qed

text \<open>
  Claim C9. In every state the store can reach, \<open>displayedApartments\<close> is the first
  \<open>currentPage * itemsPerPage\<close> elements of \<open>filteredApartments\<close>, hence a prefix of
  it; and this is again so after any further step: an action run to its \<^verbatim>\<open>await\<close> or
  its end, a resumption, or a whole \<open>fetchApartments\<close> or \<open>loadMore\<close>.
\<close>

theorem displayed_window_invariant:
  assumes "reachable s"
  shows "displayedApartments s = take (currentPage s * itemsPerPage s) (filteredApartments s)
         \<and> prefix (displayedApartments s) (filteredApartments s)
         \<and> displayed_window (step a s)
         \<and> displayed_window (fetchApartments outcome s)
         \<and> displayed_window (loadMore s)"
proof -
  have w: "displayed_window s" using assms by (rule reachable_window)
  then have eq: "displayedApartments s = take (currentPage s * itemsPerPage s) (filteredApartments s)"
    by (simp add: displayed_window_def)
  have "prefix (take (currentPage s * itemsPerPage s) (filteredApartments s)) (filteredApartments s)"
    by (rule take_is_prefix)
  with eq have pre: "prefix (displayedApartments s) (filteredApartments s)" by simp
  have "displayed_window (step a s)" using w by (rule step_window)
  moreover have "displayed_window (fetchApartments outcome s)"
    using assms by (intro reachable_window reachable_fetchApartments)
  moreover have "displayed_window (loadMore s)"
    using assms by (intro reachable_window reachable_loadMore)
  ultimately show ?thesis using eq pre by blast
qed

theorem displayed_window_invariant_witness:
  "reachable (fetchApartments (Inr [flat_a, flat_b]) (useApartmentsStore Absent))
   \<and> prefix (displayedApartments (fetchApartments (Inr [flat_a, flat_b]) (useApartmentsStore Absent)))
       (filteredApartments (fetchApartments (Inr [flat_a, flat_b]) (useApartmentsStore Absent)))"
proof -
  have r: "reachable (fetchApartments (Inr [flat_a, flat_b]) (useApartmentsStore Absent))"
    by (intro reachable_fetchApartments reachable.init)
  from displayed_window_invariant [OF r] r show ?thesis by blast
qed

section \<open>Load more\<close>

lemma array_filter_all:
  "\<forall>x \<in> set xs. p x = Inr True \<Longrightarrow> array_filter p xs = Inr xs"
  by (induction xs) auto

lemma filterApartments_default_all:
  assumes "\<forall>a \<in> set D. DEFAULT_PRICE_MIN \<le> price a \<and> price a \<le> DEFAULT_PRICE_MAX
             \<and> DEFAULT_SQUARE_MIN \<le> square a \<and> square a \<le> DEFAULT_SQUARE_MAX"
  shows "filterApartments default_filters D = Inr D"
  unfolding filterApartments_def
  by (rule array_filter_all) (use assms in \<open>auto simp: filter_callback_def default_filters_def\<close>)

lemma fetchApartments_fresh:
  assumes "D \<noteq> []"
    and "\<forall>a \<in> set D. DEFAULT_PRICE_MIN \<le> price a \<and> price a \<le> DEFAULT_PRICE_MAX
             \<and> DEFAULT_SQUARE_MIN \<le> square a \<and> square a \<le> DEFAULT_SQUARE_MAX"
  shows "fetchApartments (Inr D) (useApartmentsStore Absent) =
           (useApartmentsStore Absent)\<lparr>allApartments := D, hasInitialized := True,
              filteredApartments := D, displayedApartments := take 5 D, fetchCalls := 1\<rparr>"
  using assms(1) filterApartments_default_all [OF assms(2)]
  by (simp add: fetchApartments_def fetchApartments_start_def fetchApartments_resume_def
      initPersistedState_def applyFiltersAndSort_def sortApartments_def useApartmentsStore_def
      ITEMS_PER_PAGE_def Let_def)

lemma loadMore_noop:
  "\<not> hasMoreItems s \<or> isLoading s \<Longrightarrow> loadMore_start s = None \<and> loadMore s = s"
  by (auto simp: loadMore_def loadMore_start_def)

lemma loadMore_resume_fields:
  "loadMore_resume s =
     s\<lparr>currentPage := currentPage s + 1,
       displayedApartments := take ((currentPage s + 1) * itemsPerPage s) (filteredApartments s),
       isLoading := False\<rparr>"
  by (simp add: loadMore_resume_def Let_def)

lemma loadMore_advance:
  assumes "hasMoreItems s" "\<not> isLoading s"
  shows "loadMore s =
     s\<lparr>currentPage := currentPage s + 1,
       displayedApartments := take ((currentPage s + 1) * itemsPerPage s) (filteredApartments s)\<rparr>"
  using assms by (cases s) (simp add: loadMore_def loadMore_start_def loadMore_resume_fields)

lemma loadMore_scenario:
  assumes len: "length D = 12"
    and rng: "\<forall>a \<in> set D. DEFAULT_PRICE_MIN \<le> price a \<and> price a \<le> DEFAULT_PRICE_MAX
             \<and> DEFAULT_SQUARE_MIN \<le> square a \<and> square a \<le> DEFAULT_SQUARE_MAX"
  defines "s0 \<equiv> fetchApartments (Inr D) (useApartmentsStore Absent)"
  shows "itemsPerPage s0 = 5 \<and> length (displayedApartments s0) = 5 \<and> hasMoreItems s0
         \<and> length (displayedApartments (loadMore s0)) = 10
         \<and> length (displayedApartments (loadMore (loadMore s0))) = 12
         \<and> \<not> hasMoreItems (loadMore (loadMore s0))"
proof -
  from len have ne: "D \<noteq> []" by auto
  have s0: "s0 = (useApartmentsStore Absent)\<lparr>allApartments := D, hasInitialized := True,
              filteredApartments := D, displayedApartments := take 5 D, fetchCalls := 1\<rparr>"
    unfolding s0_def by (rule fetchApartments_fresh [OF ne rng])
  have a0: "itemsPerPage s0 = 5" "length (displayedApartments s0) = 5" "hasMoreItems s0"
    "\<not> isLoading s0" "currentPage s0 = 1" "filteredApartments s0 = D"
    using len by (simp_all add: s0 useApartmentsStore_def ITEMS_PER_PAGE_def hasMoreItems_def)
  have s1: "loadMore s0 = s0\<lparr>currentPage := 2, displayedApartments := take 10 D\<rparr>"
    using loadMore_advance [of s0] a0 by simp
  have a1: "length (displayedApartments (loadMore s0)) = 10" "hasMoreItems (loadMore s0)"
    "\<not> isLoading (loadMore s0)" "currentPage (loadMore s0) = 2"
    "filteredApartments (loadMore s0) = D" "itemsPerPage (loadMore s0) = 5"
    using len a0 by (simp_all add: s1 hasMoreItems_def)
  have s2: "loadMore (loadMore s0) = (loadMore s0)\<lparr>currentPage := 3, displayedApartments := take 15 D\<rparr>"
    using loadMore_advance [of "loadMore s0"] a1 by simp
  have a2: "length (displayedApartments (loadMore (loadMore s0))) = 12"
    "\<not> hasMoreItems (loadMore (loadMore s0))"
    using len a1 by (simp_all add: s2 hasMoreItems_def)
  from a0 a1 a2 show ?thesis by simp
qed

text \<open>
  Claim C3. \<open>loadMore\<close> does nothing when there are no more items or the loading flag
  is set. Otherwise it adds one to \<open>currentPage\<close> and sets the displayed list to the
  first \<open>currentPage * itemsPerPage\<close> elements of the filtered list, so that its length
  is that number capped at the length of the filtered list; the part after the timer
  does this on whatever store it resumes on. For a dataset of 12 apartments, all within
  the default ranges, fetched into a fresh store with nothing persisted: 5 apartments are
  displayed and there are more; after one \<open>loadMore\<close> 10; after a second one 12, and
  there are no more.
\<close>

theorem loadMore_spec:
  "(\<not> hasMoreItems s \<or> isLoading s \<longrightarrow> loadMore_start s = None \<and> loadMore s = s)
   \<and> (hasMoreItems s \<and> \<not> isLoading s \<longrightarrow>
        loadMore s = s\<lparr>currentPage := currentPage s + 1,
                       displayedApartments := take ((currentPage s + 1) * itemsPerPage s) (filteredApartments s)\<rparr>
        \<and> length (displayedApartments (loadMore s))
            = min ((currentPage s + 1) * itemsPerPage s) (length (filteredApartments s)))
   \<and> loadMore_resume s =
        s\<lparr>currentPage := currentPage s + 1,
          displayedApartments := take ((currentPage s + 1) * itemsPerPage s) (filteredApartments s),
          isLoading := False\<rparr>
   \<and> (length D = 12
        \<and> (\<forall>a \<in> set D. DEFAULT_PRICE_MIN \<le> price a \<and> price a \<le> DEFAULT_PRICE_MAX
             \<and> DEFAULT_SQUARE_MIN \<le> square a \<and> square a \<le> DEFAULT_SQUARE_MAX) \<longrightarrow>
        itemsPerPage (fetchApartments (Inr D) (useApartmentsStore Absent)) = 5
        \<and> length (displayedApartments (fetchApartments (Inr D) (useApartmentsStore Absent))) = 5
        \<and> hasMoreItems (fetchApartments (Inr D) (useApartmentsStore Absent))
        \<and> length (displayedApartments (loadMore (fetchApartments (Inr D) (useApartmentsStore Absent)))) = 10
        \<and> length (displayedApartments (loadMore (loadMore (fetchApartments (Inr D) (useApartmentsStore Absent))))) = 12
        \<and> \<not> hasMoreItems (loadMore (loadMore (fetchApartments (Inr D) (useApartmentsStore Absent)))))"
proof (intro conjI impI)
  assume "hasMoreItems s \<and> \<not> isLoading s"
  then have adv: "loadMore s = s\<lparr>currentPage := currentPage s + 1,
       displayedApartments := take ((currentPage s + 1) * itemsPerPage s) (filteredApartments s)\<rparr>"
    by (simp add: loadMore_advance)
  show "loadMore s = s\<lparr>currentPage := currentPage s + 1,
       displayedApartments := take ((currentPage s + 1) * itemsPerPage s) (filteredApartments s)\<rparr>"
    by (rule adv)
  show "length (displayedApartments (loadMore s))
            = min ((currentPage s + 1) * itemsPerPage s) (length (filteredApartments s))"
    by (simp add: adv min.commute)
qed (use loadMore_noop [of s] loadMore_resume_fields [of s] loadMore_scenario [of D] in simp_all)

theorem loadMore_spec_witness:
  "length (displayedApartments (fetchApartments (Inr (replicate 12 flat_a)) (useApartmentsStore Absent))) = 5
   \<and> length (displayedApartments (loadMore (fetchApartments (Inr (replicate 12 flat_a)) (useApartmentsStore Absent)))) = 10
   \<and> length (displayedApartments (loadMore (fetchApartments (Inr (replicate 12 flat_a)) (useApartmentsStore Absent))))
       = min ((currentPage (fetchApartments (Inr (replicate 12 flat_a)) (useApartmentsStore Absent)) + 1)
                * itemsPerPage (fetchApartments (Inr (replicate 12 flat_a)) (useApartmentsStore Absent)))
             (length (filteredApartments (fetchApartments (Inr (replicate 12 flat_a)) (useApartmentsStore Absent))))
   \<and> length (displayedApartments (loadMore (loadMore (fetchApartments (Inr (replicate 12 flat_a)) (useApartmentsStore Absent))))) = 12
   \<and> loadMore (loadMore (loadMore (fetchApartments (Inr (replicate 12 flat_a)) (useApartmentsStore Absent))))
       = loadMore (loadMore (fetchApartments (Inr (replicate 12 flat_a)) (useApartmentsStore Absent)))"
proof -
  let ?D = "replicate 12 flat_a"
  let ?s0 = "fetchApartments (Inr ?D) (useApartmentsStore Absent)"
  have h: "length ?D = 12
        \<and> (\<forall>a \<in> set ?D. DEFAULT_PRICE_MIN \<le> price a \<and> price a \<le> DEFAULT_PRICE_MAX
             \<and> DEFAULT_SQUARE_MIN \<le> square a \<and> square a \<le> DEFAULT_SQUARE_MAX)"
    by (simp add: flat_a_def DEFAULT_PRICE_MIN_def DEFAULT_PRICE_MAX_def
        DEFAULT_SQUARE_MIN_def DEFAULT_SQUARE_MAX_def)
  have l: "\<not> isLoading ?s0"
    by (simp add: fetchApartments_def fetchApartments_start_def fetchApartments_resume_def
        useApartmentsStore_def Let_def)
  show ?thesis
    using loadMore_spec [of ?s0 ?D] loadMore_spec [of "loadMore (loadMore ?s0)" ?D] h l
    by blast
qed

section \<open>Fetching\<close>

lemma initPersistedState_keeps:
  "allApartments (initPersistedState s) = allApartments s"
  "fetchCalls (initPersistedState s) = fetchCalls s"
  by (simp_all add: initPersistedState_def Let_def split: stored.splits option.splits)

lemma applyFiltersAndSort_keeps:
  assumes "applyFiltersAndSort s = Inr s'"
  shows "allApartments s' = allApartments s" "fetchCalls s' = fetchCalls s"
  using assms
  by (auto simp: applyFiltersAndSort_def Let_def split: if_splits sum.splits)

lemma fetchApartments_resume_data:
  "allApartments (fetchApartments_resume (Inr data) s) = data"
  by (auto simp: fetchApartments_resume_def Let_def initPersistedState_keeps
      applyFiltersAndSort_keeps split: sum.splits)

lemma fetchApartments_resume_fetchCalls:
  "fetchCalls (fetchApartments_resume outcome s) = fetchCalls s"
  by (auto simp: fetchApartments_resume_def Let_def initPersistedState_keeps
      applyFiltersAndSort_keeps split: sum.splits)

lemma fetchApartments_resume_isLoading:
  "isLoading (fetchApartments_resume outcome s) = False"
  by (simp add: fetchApartments_resume_def Let_def)

lemma fetchApartments_resume_failure:
  "fetchApartments_resume (Inl e) s =
     s\<lparr>error := Some e, console := console s @ [e], isLoading := False\<rparr>"
  by (simp add: fetchApartments_resume_def)

lemma fetchApartments_skip:
  "allApartments s \<noteq> [] \<Longrightarrow> fetchApartments_start s = None \<and> fetchApartments outcome s = s"
  by (simp add: fetchApartments_def fetchApartments_start_def)

lemma fetchApartments_run:
  "allApartments s = [] \<Longrightarrow>
   fetchApartments outcome s =
     fetchApartments_resume outcome (s\<lparr>isLoading := True, error := None, fetchCalls := fetchCalls s + 1\<rparr>)"
  by (simp add: fetchApartments_def fetchApartments_start_def)

text \<open>
  Claim C6. When \<open>allApartments\<close> is not empty, \<open>fetchApartments\<close> returns at the
  guard: the collaborator is not invoked and the store, the count of invocations
  included, is unchanged. Hence, from a store with no dataset, a call that brings a
  non-empty dataset followed by a second call (whatever the collaborator would answer)
  invokes the collaborator once, and the second call changes nothing.
\<close>

theorem fetchApartments_guard:
  "(allApartments s \<noteq> [] \<longrightarrow> fetchApartments_start s = None \<and> fetchApartments outcome s = s)
   \<and> (allApartments s = [] \<and> data \<noteq> [] \<longrightarrow>
        fetchCalls (fetchApartments (Inr data) s) = fetchCalls s + 1
        \<and> allApartments (fetchApartments (Inr data) s) = data
        \<and> fetchApartments outcome (fetchApartments (Inr data) s) = fetchApartments (Inr data) s
        \<and> fetchCalls (fetchApartments outcome (fetchApartments (Inr data) s)) = fetchCalls s + 1)"
proof (intro conjI impI)
  assume "allApartments s \<noteq> []"
  then show "fetchApartments_start s = None" "fetchApartments outcome s = s"
    by (simp_all add: fetchApartments_skip)
next
  assume h: "allApartments s = [] \<and> data \<noteq> []"
  then show c: "fetchCalls (fetchApartments (Inr data) s) = fetchCalls s + 1"
    by (simp add: fetchApartments_run fetchApartments_resume_fetchCalls)
  from h show d: "allApartments (fetchApartments (Inr data) s) = data"
    by (simp add: fetchApartments_run fetchApartments_resume_data)
  from h d show e: "fetchApartments outcome (fetchApartments (Inr data) s) = fetchApartments (Inr data) s"
    by (simp add: fetchApartments_skip)
  from c e show "fetchCalls (fetchApartments outcome (fetchApartments (Inr data) s)) = fetchCalls s + 1"
    by simp
qed

theorem fetchApartments_guard_witness:
  "fetchCalls (fetchApartments (Inl (Rejected ''offline''))
      (fetchApartments (Inr [flat_a, flat_b]) (useApartmentsStore Absent))) = 1
   \<and> fetchApartments (Inr [flat_b])
      (fetchApartments (Inr [flat_a, flat_b]) (useApartmentsStore Absent))
       = fetchApartments (Inr [flat_a, flat_b]) (useApartmentsStore Absent)"
proof -
  have "allApartments (useApartmentsStore Absent) = [] \<and> [flat_a, flat_b] \<noteq> []"
    by (simp add: useApartmentsStore_def)
  moreover have "fetchCalls (useApartmentsStore Absent) = 0"
    by (simp add: useApartmentsStore_def)
  ultimately show ?thesis
    using fetchApartments_guard [of "useApartmentsStore Absent" "Inl (Rejected ''offline'')" "[flat_a, flat_b]"]
      fetchApartments_guard [of "useApartmentsStore Absent" "Inr [flat_b]" "[flat_a, flat_b]"]
    by simp
qed

text \<open>
  Claim C7. The part of \<open>fetchApartments\<close> after the \<^verbatim>\<open>await\<close> always ends with the
  loading flag cleared. When the collaborator rejects with \<open>e\<close>, it stores \<open>e\<close> in
  \<open>error\<close>, logs it and changes nothing else. So a call on a store with no dataset
  that fails leaves \<open>error = e\<close>, the dataset empty and the flag cleared, the guard of
  the next call does not return, and the next call invokes the collaborator again.
\<close>

theorem fetchApartments_failure:
  "isLoading (fetchApartments_resume outcome s) = False
   \<and> fetchApartments_resume (Inl e) s = s\<lparr>error := Some e, console := console s @ [e], isLoading := False\<rparr>
   \<and> (allApartments s = [] \<longrightarrow>
        isLoading (fetchApartments outcome s) = False
        \<and> error (fetchApartments (Inl e) s) = Some e
        \<and> allApartments (fetchApartments (Inl e) s) = []
        \<and> fetchApartments_start (fetchApartments (Inl e) s) \<noteq> None
        \<and> fetchCalls (fetchApartments outcome (fetchApartments (Inl e) s)) = fetchCalls s + 2)"
proof (intro conjI impI)
  assume h: "allApartments s = []"
  then show "isLoading (fetchApartments outcome s) = False"
    by (simp add: fetchApartments_run fetchApartments_resume_isLoading)
  from h show "error (fetchApartments (Inl e) s) = Some e"
    by (simp add: fetchApartments_run fetchApartments_resume_failure)
  from h show a: "allApartments (fetchApartments (Inl e) s) = []"
    by (simp add: fetchApartments_run fetchApartments_resume_failure)
  then show "fetchApartments_start (fetchApartments (Inl e) s) \<noteq> None"
    by (simp add: fetchApartments_start_def)
  from h have "fetchCalls (fetchApartments (Inl e) s) = fetchCalls s + 1"
    by (simp add: fetchApartments_run fetchApartments_resume_failure)
  then show "fetchCalls (fetchApartments outcome (fetchApartments (Inl e) s)) = fetchCalls s + 2"
    using a by (simp add: fetchApartments_run fetchApartments_resume_fetchCalls)
qed (simp_all add: fetchApartments_resume_isLoading fetchApartments_resume_failure)

theorem fetchApartments_failure_witness:
  "error (fetchApartments (Inl (Rejected ''offline'')) (useApartmentsStore Absent)) = Some (Rejected ''offline'')
   \<and> allApartments (fetchApartments (Inl (Rejected ''offline'')) (useApartmentsStore Absent)) = []
   \<and> isLoading (fetchApartments (Inl (Rejected ''offline'')) (useApartmentsStore Absent)) = False
   \<and> fetchCalls (fetchApartments (Inr [flat_a])
        (fetchApartments (Inl (Rejected ''offline'')) (useApartmentsStore Absent))) = 2"
proof -
  have "allApartments (useApartmentsStore Absent) = []" "fetchCalls (useApartmentsStore Absent) = 0"
    by (simp_all add: useApartmentsStore_def)
  then show ?thesis
    using fetchApartments_failure [of "Inl (Rejected ''offline'')" "useApartmentsStore Absent" "Rejected ''offline''"]
      fetchApartments_failure [of "Inr [flat_a]" "useApartmentsStore Absent" "Rejected ''offline''"]
    by simp
qed

section \<open>Reset\<close>

text \<open>
  Claim C4 says that \<open>reset\<close> returns the whole system, the room options and the
  storage slot included, to the state before the first fetch. It does not: after
  \<open>resetRooms\<close> on a fresh store, \<open>reset\<close> leaves the room options different from the
  initial ones; and on a fresh store with an empty slot, \<open>reset\<close> leaves the slot filled.
\<close>

theorem reset_not_pristine:
  "rooms_ui (reset (resetRooms (useApartmentsStore Absent))) \<noteq> rooms_ui (useApartmentsStore Absent)
   \<and> storage (reset (useApartmentsStore Absent)) \<noteq> Absent"
  by (simp add: reset_def resetRooms_def saveFilters_def useApartmentsStore_def initial_rooms_def)

text \<open>
  Claim C4, amended. \<open>reset\<close> sets the dataset, the filtered and displayed lists,
  \<open>currentPage\<close>, the loading flag, \<open>error\<close>, the sort, the initialization flag and
  the filters to their initial values, and writes the default filters and the default
  sort to the storage slot; the room options, \<open>itemsPerPage\<close>, and the environment's
  console and count of fetches stay as they are.
\<close>

theorem reset_fields:
  "reset s =
     (useApartmentsStore (Parsed \<lparr>p_filters = Some default_filters, p_sortBy = Some default\<rparr>))
       \<lparr>itemsPerPage := itemsPerPage s, rooms_ui := rooms_ui s,
        console := console s, fetchCalls := fetchCalls s\<rparr>"
  by (cases s) (simp add: reset_def saveFilters_def useApartmentsStore_def)

theorem reset_fields_witness:
  "allApartments (reset (fetchApartments (Inr [flat_a, flat_b]) (useApartmentsStore Absent))) = []
   \<and> filters (reset (fetchApartments (Inr [flat_a, flat_b]) (useApartmentsStore Absent))) = default_filters
   \<and> storage (reset (fetchApartments (Inr [flat_a, flat_b]) (useApartmentsStore Absent)))
       = Parsed \<lparr>p_filters = Some default_filters, p_sortBy = Some default\<rparr>"
  using reset_fields [of "fetchApartments (Inr [flat_a, flat_b]) (useApartmentsStore Absent)"]
  by (simp add: useApartmentsStore_def)

section \<open>Restoring the persisted state\<close>

text \<open>
  Claim C5 says that \<open>initPersistedState\<close> falls back field by field, also for a
  payload that has filters without ranges. It does not: restoring such a payload into a
  fresh store leaves the filters without a price range, where they had the default one.
\<close>

theorem initPersistedState_no_deep_fallback:
  "priceRange (filters (initPersistedState (useApartmentsStore (Parsed partial_payload)))) = None
   \<and> priceRange (filters (useApartmentsStore (Parsed partial_payload)))
       = Some (DEFAULT_PRICE_MIN, DEFAULT_PRICE_MAX)"
  by (simp add: initPersistedState_def useApartmentsStore_def partial_payload_def
      default_filters_def Let_def)

text \<open>
  Claim C5, amended. \<open>initPersistedState\<close> changes nothing when the slot holds no
  string. When \<^verbatim>\<open>JSON.parse\<close> throws, or gives \<^verbatim>\<open>null\<close>, the exception is logged
  and nothing else changes. For a parsed payload the fallback is per top-level property:
  the filters become the payload's filters as they are, or stay the current ones when the
  payload has none; the sort becomes the payload's, or \<open>default\<close> when the payload has
  none; and when the filters then have a room list, the \<open>active\<close> flags of the room
  options are set from it.
\<close>

theorem initPersistedState_fallback:
  "(storage s = Absent \<longrightarrow> initPersistedState s = s)
   \<and> (storage s = Unparsable \<longrightarrow> initPersistedState s = s\<lparr>console := console s @ [SyntaxError]\<rparr>)
   \<and> (storage s = JsonNull \<longrightarrow> initPersistedState s = s\<lparr>console := console s @ [TypeError]\<rparr>)
   \<and> (storage s = Parsed p \<longrightarrow>
        filters (initPersistedState s) = (case p_filters p of Some f \<Rightarrow> f | None \<Rightarrow> filters s)
        \<and> sortBy (initPersistedState s) = (case p_sortBy p of Some b \<Rightarrow> b | None \<Rightarrow> default)
        \<and> (\<forall>rs. rooms (filters (initPersistedState s)) = Some rs \<longrightarrow>
              rooms_ui (initPersistedState s)
                = map (\<lambda>room. room\<lparr>active := room_value room \<in> set rs\<rparr>) (rooms_ui s)))"
  by (auto simp: initPersistedState_def Let_def split: option.splits)

theorem initPersistedState_fallback_witness:
  "initPersistedState (useApartmentsStore Absent) = useApartmentsStore Absent
   \<and> filters (initPersistedState (useApartmentsStore Unparsable)) = default_filters
   \<and> console (initPersistedState (useApartmentsStore Unparsable)) = [SyntaxError]
   \<and> filters (initPersistedState (useApartmentsStore JsonNull)) = default_filters
   \<and> filters (initPersistedState (useApartmentsStore (Parsed \<lparr>p_filters = None, p_sortBy = Some price_asc\<rparr>)))
       = default_filters
   \<and> sortBy (initPersistedState (useApartmentsStore (Parsed \<lparr>p_filters = None, p_sortBy = Some price_asc\<rparr>)))
       = price_asc
   \<and> sortBy (initPersistedState (useApartmentsStore (Parsed partial_payload))) = default
   \<and> map active (rooms_ui (initPersistedState (useApartmentsStore (Parsed partial_payload))))
       = [False, True, False, False]"
  using initPersistedState_fallback [of "useApartmentsStore Absent" partial_payload]
    initPersistedState_fallback [of "useApartmentsStore Unparsable" partial_payload]
    initPersistedState_fallback [of "useApartmentsStore JsonNull" partial_payload]
    initPersistedState_fallback [of "useApartmentsStore (Parsed \<lparr>p_filters = None, p_sortBy = Some price_asc\<rparr>)"
       "\<lparr>p_filters = None, p_sortBy = Some price_asc\<rparr>"]
    initPersistedState_fallback [of "useApartmentsStore (Parsed partial_payload)" partial_payload]
  by (simp add: useApartmentsStore_def partial_payload_def initial_rooms_def)

text \<open>
  What follows from such a payload: the fetch that restores it fills the dataset, the
  filter callback then throws on the missing price range, and the call ends with the
  error recorded and nothing filtered.
\<close>

lemma fetch_partial_payload:
  "error (fetchApartments (Inr [flat_a]) (useApartmentsStore (Parsed partial_payload))) = Some TypeError
   \<and> allApartments (fetchApartments (Inr [flat_a]) (useApartmentsStore (Parsed partial_payload))) = [flat_a]
   \<and> filteredApartments (fetchApartments (Inr [flat_a]) (useApartmentsStore (Parsed partial_payload))) = []"
  by (simp add: fetchApartments_def fetchApartments_start_def fetchApartments_resume_def
      initPersistedState_def applyFiltersAndSort_def filterApartments_def filter_callback_def
      useApartmentsStore_def partial_payload_def initial_rooms_def Let_def
      flat_a_def extractRoomsCount_examples)

section \<open>Debounce\<close>

lemma debounce_call_reschedules:
  assumes "own_timer w"
  shows "timers (debounce_call wait now args w)
           = [\<lparr>timer_id = next_id w, deadline = now + wait, timer_args = args\<rparr>]"
    and "timeout (debounce_call wait now args w) = Some (next_id w)"
    and "calls (debounce_call wait now args w) = calls w"
    and "own_timer (debounce_call wait now args w)"
  using assms
  by (auto simp: own_timer_def debounce_call_def clearTimeout_def setTimeout_def Let_def
      split: option.splits)

lemma run_timers_none:
  assumes "timers w = []"
  shows "run_timers n func wait due w = Some w"
  using assms by (cases n) (simp_all add: next_timer_def)

lemma run_timers_not_due:
  assumes "timers w = [\<lparr>timer_id = i, deadline = d, timer_args = a\<rparr>]" "\<not> due d"
  shows "run_timers n func wait due w = Some w"
  using assms by (cases n) (simp_all add: next_timer_def)

lemma run_timers_due:
  assumes "timers w = [\<lparr>timer_id = i, deadline = d, timer_args = a\<rparr>]" "due d"
  shows "run_timers (Suc n) (\<lambda>x. []) wait due w
           = Some (w\<lparr>timers := [], calls := calls w @ [(d, a)], timeout := None\<rparr>)"
proof -
  have nt: "next_timer due (timers w) = Some \<lparr>timer_id = i, deadline = d, timer_args = a\<rparr>"
    using assms by (simp add: next_timer_def)
  let ?w' = "timer_callback (\<lambda>x. []) wait \<lparr>timer_id = i, deadline = d, timer_args = a\<rparr>
               (w\<lparr>timers := filter (\<lambda>x. timer_id x \<noteq> i) (timers w)\<rparr>)"
  have w': "?w' = w\<lparr>timers := [], calls := calls w @ [(d, a)], timeout := None\<rparr>"
    using assms(1) by (simp add: timer_callback_def)
  have "run_timers (Suc n) (\<lambda>x. []) wait due w = run_timers n (\<lambda>x. []) wait due ?w'"
    by (simp add: nt)
  also have "\<dots> = Some ?w'"
    by (rule run_timers_none) (simp add: w')
  finally show ?thesis by (simp add: w')
qed

lemma run_calls_pending:
  assumes "timeout w = Some i"
    and "timers w = [\<lparr>timer_id = i, deadline = t + wait, timer_args = a\<rparr>]"
    and "sorted (t # map fst cs)"
  shows "\<exists>w'. run_calls (Suc n) (\<lambda>x. []) wait cs w = Some w'
           \<and> run_timers (Suc n) (\<lambda>x. []) wait (\<lambda>d. True) w'
               = Some (w'\<lparr>timers := [], calls := calls w @ trailing_calls wait ((t, a) # cs), timeout := None\<rparr>)"
  using assms
proof (induction cs arbitrary: w i t a)
  case Nil
  have "run_timers (Suc n) (\<lambda>x. []) wait (\<lambda>d. True) w
          = Some (w\<lparr>timers := [], calls := calls w @ [(t + wait, a)], timeout := None\<rparr>)"
    using Nil.prems(2) by (rule run_timers_due) simp
  then show ?case by (simp del: run_timers.simps)
next
  case (Cons c cs)
  obtain t' a' where c: "c = (t', a')" by (cases c)
  from Cons.prems(3) c have srt: "sorted (t' # map fst cs)" by simp
  show ?case
  proof (cases "t + wait \<le> t'")
    case True
    let ?w1 = "w\<lparr>timers := [], calls := calls w @ [(t + wait, a)], timeout := None\<rparr>"
    let ?w2 = "debounce_call wait t' a' ?w1"
    have w1: "run_timers (Suc n) (\<lambda>x. []) wait (\<lambda>d. d \<le> t') w = Some ?w1"
      using Cons.prems(2) True by (rule run_timers_due)
    have own: "own_timer ?w1" by (simp add: own_timer_def)
    have step: "run_calls (Suc n) (\<lambda>x. []) wait (c # cs) w = run_calls (Suc n) (\<lambda>x. []) wait cs ?w2"
      by (simp add: c w1 del: run_timers.simps)
    have cw2: "calls ?w2 = calls w @ [(t + wait, a)]"
      using debounce_call_reschedules(3) [OF own, of wait t' a'] by simp
    from Cons.IH [OF debounce_call_reschedules(2,1) [OF own, of wait t' a'] srt]
    show ?thesis unfolding step using True by (simp add: c cw2 del: run_timers.simps run_calls.simps)
  next
    case False
    let ?w2 = "debounce_call wait t' a' w"
    have w1: "run_timers (Suc n) (\<lambda>x. []) wait (\<lambda>d. d \<le> t') w = Some w"
      using Cons.prems(2) False by (rule run_timers_not_due)
    have own: "own_timer w" using Cons.prems(1,2) by (simp add: own_timer_def)
    have step: "run_calls (Suc n) (\<lambda>x. []) wait (c # cs) w = run_calls (Suc n) (\<lambda>x. []) wait cs ?w2"
      by (simp add: c w1 del: run_timers.simps)
    have cw2: "calls ?w2 = calls w"
      using debounce_call_reschedules(3) [OF own, of wait t' a'] by simp
    from Cons.IH [OF debounce_call_reschedules(2,1) [OF own, of wait t' a'] srt]
    show ?thesis unfolding step using False by (simp add: c cw2 del: run_timers.simps run_calls.simps)
  qed
qed

text \<open>
  For a wrapped function that does not invoke the returned function while it runs, and
  invocations in the order of their times, the session ends (one callback per turn of
  the host is enough) and the wrapped function has run exactly for the invocations that
  no other invocation follows within \<open>wait\<close>, each \<open>wait\<close> after its invocation, with
  its arguments.
\<close>

lemma session_trailing:
  assumes "sorted (map fst cs)"
  shows "session (Suc n) (\<lambda>x. []) wait cs = Some (trailing_calls wait cs)"
proof (cases cs)
  case Nil
  then show ?thesis
    by (simp add: session_def debounce_new_def next_timer_def)
next
  case (Cons c cs')
  obtain t a where c: "c = (t, a)" by (cases c)
  let ?w = "debounce_call wait t a debounce_new"
  have own: "own_timer (debounce_new :: 'a world)"
    by (simp add: debounce_new_def own_timer_def)
  have w0: "run_timers (Suc n) (\<lambda>x. []) wait (\<lambda>d. d \<le> t) (debounce_new :: 'a world) = Some debounce_new"
    by (rule run_timers_none) (simp add: debounce_new_def)
  from assms Cons c have srt: "sorted (t # map fst cs')" by simp
  have cw: "calls ?w = []"
    using debounce_call_reschedules(3) [OF own, of wait t a] by (simp add: debounce_new_def)
  have nid: "next_id (debounce_new :: 'a world) = 1" by (simp add: debounce_new_def)
  from run_calls_pending [OF debounce_call_reschedules(2,1) [OF own, of wait t a] srt, of n]
  show ?thesis
    by (auto simp add: session_def Cons c w0 cw simp del: run_timers.simps)
qed

text \<open>
  With \<open>wait = 100\<close> and invocations at the times 0, 30 and 60, such a function runs
  once, at 160, with the arguments of the invocation at 60.
\<close>

lemma session_spec_scenario:
  "session (Suc n) (\<lambda>x. []) 100 [(0, a0), (30, a1), (60, a2)] = Some [(160, a2)]"
proof -
  have "sorted (map fst [(0::nat, a0), (30, a1), (60, a2)])" by simp
  then have "session (Suc n) (\<lambda>x. []) 100 [(0, a0), (30, a1), (60, a2)]
               = Some (trailing_calls 100 [(0, a0), (30, a1), (60, a2)])"
    by (rule session_trailing)
  then show ?thesis by simp
qed

text \<open>
  Claim C8 asks, for every wrapped function, that each invocation of the returned
  function cancels the pending call, so that of invocations less than \<open>wait\<close> apart
  only the last one runs. The callback clears \<^verbatim>\<open>timeout\<close> after it has run the
  wrapped function, so a timer that the wrapped function schedules by invoking the
  returned function is forgotten. With \<open>wait = 100\<close>, the function \<open>reentrant\<close>, and
  invocations from outside at 0 with \<open>''a''\<close> and at 150 with \<open>''c''\<close>: the callback
  of the first runs at 100 and invokes the returned function with \<open>''b''\<close>; the
  invocation at 150, only 50 later, does not cancel that call, and the wrapped function
  runs with \<open>''b''\<close> at 200 and with \<open>''c''\<close> at 250. Of the three invocations, at 0,
  100 and 150, the description lets the first and the last run.
\<close>

theorem debounce_reentrant_not_cancelled:
  "session 3 reentrant 100 [(0, ''a''), (150, ''c'')]
     = Some [(100, ''a''), (200, ''b''), (250, ''c'')]
   \<and> trailing_calls 100 [(0, ''a''), (100, ''b''), (150, ''c'')]
     = [(100, ''a''), (250, ''c'')]"
  by (simp add: session_def debounce_new_def next_timer_def timer_callback_def
      debounce_call_def setTimeout_def clearTimeout_def reentrant_def numeral_3_eq_3)

section \<open>The initial room options\<close>

text \<open>
  Claim C10. In the store as constructed, whatever the storage slot holds, the one room
  option with value 2 (labelled with the digit 2 and the Cyrillic letter) is active,
  while the room list of the filters is empty, so that the filter callback decides on
  the price and square ranges alone: no room filtering is applied.
\<close>

theorem initial_room_flag_mismatch:
  "filter (\<lambda>r. room_value r = 2) (rooms_ui (useApartmentsStore st))
     = [\<lparr>name = [50, 1082], room_value = 2, active = True, disabled = False\<rparr>]
   \<and> rooms (filters (useApartmentsStore st)) = Some []
   \<and> filter_callback (filters (useApartmentsStore st)) a
     = Inr (DEFAULT_PRICE_MIN \<le> price a \<and> price a \<le> DEFAULT_PRICE_MAX
            \<and> DEFAULT_SQUARE_MIN \<le> square a \<and> square a \<le> DEFAULT_SQUARE_MAX)"
  by (auto simp: useApartmentsStore_def initial_rooms_def default_filters_def filter_callback_def)

theorem initial_room_flag_mismatch_witness:
  "map active (filter (\<lambda>r. room_value r = 2) (rooms_ui (useApartmentsStore Absent))) = [True]
   \<and> rooms (filters (useApartmentsStore Absent)) = Some []
   \<and> filter_callback (filters (useApartmentsStore Absent)) flat_b = Inr True"
  using initial_room_flag_mismatch [of Absent flat_b]
  by (simp add: flat_b_def DEFAULT_PRICE_MIN_def DEFAULT_PRICE_MAX_def
      DEFAULT_SQUARE_MIN_def DEFAULT_SQUARE_MAX_def)

end
